theory Spec2Isabelle
  imports Complex_Main
begin

section \<open>Values of the Python program\<close>

text \<open>
  The module \<open>model/data_quality.py\<close> works on numpy arrays of float64 cells. A float64 is
  a finite number, one of the two infinities, or NaN; every ordered comparison with NaN is
  false, as in IEEE 754 and in Python.
\<close>

datatype float64 = Fin real | NaN | PosInf | NegInf

fun float_lt :: "float64 \<Rightarrow> float64 \<Rightarrow> bool" where
  "float_lt (Fin a) (Fin b) = (a < b)"
| "float_lt (Fin a) PosInf = True"
| "float_lt NegInf (Fin b) = True"
| "float_lt NegInf PosInf = True"
| "float_lt _ _ = False"

fun float_le :: "float64 \<Rightarrow> float64 \<Rightarrow> bool" where
  "float_le NaN _ = False"
| "float_le _ NaN = False"
| "float_le a b = (a = b \<or> float_lt a b)"

text \<open>The exceptions the modelled operations raise; all are subclasses of \<open>Exception\<close>.\<close>

datatype exn =
    AttributeError | IndexError | TypeError | ValueError | ImportError
  | FileNotFoundError | FileExistsError | NotADirectoryError | IsADirectoryError

text \<open>
  A cell of an array or of a Python list. An array has one dtype for all its cells; a cell
  that is not a float (an integer, a string, \<open>None\<close>) occurs in int64 or object arrays and
  in plain lists.
\<close>

datatype cell = CFloat float64 | CInt int | CStr string | CNone

datatype dtype = Float64 | Int64 | Object

text \<open>
  What a caller can pass as a batch: a one-dimensional array, a two-dimensional array of
  shape \<open>(nrows, length columns)\<close> kept column by column (the code only ever reads whole
  columns \<open>a[:, i]\<close>), or a plain Python list of rows, which may be ragged and has no
  \<open>shape\<close> attribute.
\<close>

datatype ndarray =
    Arr1 dtype "cell list"
  | Arr2 dtype nat "cell list list"

datatype batch =
    Array ndarray
  | PyList "cell list list"

text \<open>\<open>X.shape[1]\<close>\<close>

fun shape_1 :: "batch \<Rightarrow> exn + nat" where
  "shape_1 (Array (Arr2 t n cols)) = Inr (length cols)"
| "shape_1 (Array (Arr1 t xs)) = Inl IndexError"
| "shape_1 (PyList rows) = Inl AttributeError"

text \<open>\<open>X[:, i]\<close> for \<open>i\<close> taken from a \<open>range\<close>, so never negative.\<close>

fun get_column :: "batch \<Rightarrow> nat \<Rightarrow> exn + cell list" where
  "get_column (Array (Arr2 t n cols)) i =
     (if i < length cols then Inr (cols ! i) else Inl IndexError)"
| "get_column (Array (Arr1 t xs)) i = Inl IndexError"
| "get_column (PyList rows) i = Inl TypeError"

text \<open>The number of rows of a batch, for stating preconditions.\<close>

fun row_count :: "batch \<Rightarrow> nat" where
  "row_count (Array (Arr2 t n cols)) = n"
| "row_count (Array (Arr1 t xs)) = length xs"
| "row_count (PyList rows) = length rows"

subsection \<open>Formatting \<open>f"feature_{i}"\<close>\<close>

definition digit_char :: "nat \<Rightarrow> char" where
  "digit_char d = ''0123456789'' ! d"

function str_nat :: "nat \<Rightarrow> string" where
  "str_nat n = (if n < 10 then [digit_char n] else str_nat (n div 10) @ [digit_char (n mod 10)])"
  by pat_completeness auto
termination
  by (relation "measure id") auto

declare str_nat.simps [simp del]

definition feature_name :: "nat \<Rightarrow> string" where
  "feature_name i = ''feature_'' @ str_nat i"

text \<open>Reading a decimal numeral back; used to show that the formatting loses nothing.\<close>

definition nat_of_str :: "string \<Rightarrow> nat" where
  "nat_of_str s = foldl (\<lambda>a c. 10 * a + (of_char c - 48)) 0 s"

section \<open>Drift detection\<close>

text \<open>
  \<open>scipy.stats\<close> is not part of the repository. The two tests the code calls are taken as
  parameters: each either raises or returns its tuple. The test-suite of the repository
  replaces the module by a mock in the same way.
\<close>

record stats_module =
  ks_2samp :: "cell list \<Rightarrow> cell list \<Rightarrow> exn + (float64 \<times> float64)"
  anderson_ksamp :: "cell list list \<Rightarrow> exn + (float64 \<times> float64 list \<times> float64)"

record feature_detail =
  ks_statistic :: float64
  ks_pvalue :: float64
  ad_statistic :: "float64 option"
  ad_critical :: "float64 list option"
  ad_significance :: "float64 option"

text \<open>
  The \<open>statistics\<close> of a validation result, as the failure branch logs them: the counts of
  evaluated, successful and unsuccessful expectations.
\<close>

record statistics =
  evaluated_expectations :: nat
  successful_expectations :: nat
  unsuccessful_expectations :: nat

text \<open>The records written through \<open>log\<close>, one constructor for each call in the module.\<close>

datatype log_record =
    SuiteCreated
  | TrainingPassed
  | TrainingFailed statistics
  | InferencePassed
  | InferenceFailed statistics
  | ValidationError exn
  | DriftWarning nat float64
  | DriftError exn
  | ReferenceSaved string
  | SaveFailed exn
  | ReferenceLoaded string
  | ReferenceNotFound string
  | LoadFailed exn

type_synonym drift_details = "string \<rightharpoonup> feature_detail"

text \<open>
  The body of the \<open>for\<close> loop up to the assignment into \<open>drift_details\<close>: both columns are
  sliced, the Kolmogorov-Smirnov test runs (an exception leaves the loop), then the
  Anderson-Darling test runs inside its own \<open>try\<close> with a bare \<open>except\<close>.
\<close>

definition drift_feature :: "stats_module \<Rightarrow> batch \<Rightarrow> batch \<Rightarrow> nat \<Rightarrow> exn + feature_detail" where
  "drift_feature st reference_data current_data i =
     (case get_column reference_data i of
        Inl e \<Rightarrow> Inl e
      | Inr rc \<Rightarrow>
     (case get_column current_data i of
        Inl e \<Rightarrow> Inl e
      | Inr cc \<Rightarrow>
     (case ks_2samp st rc cc of
        Inl e \<Rightarrow> Inl e
      | Inr (ks_stat, ks_p) \<Rightarrow>
     (case anderson_ksamp st [rc, cc] of
        Inl e \<Rightarrow>
          Inr \<lparr>ks_statistic = ks_stat, ks_pvalue = ks_p, ad_statistic = None,
               ad_critical = None, ad_significance = None\<rparr>
      | Inr (ad_stat, ad_crit, ad_sig) \<Rightarrow>
          Inr \<lparr>ks_statistic = ks_stat, ks_pvalue = ks_p, ad_statistic = Some ad_stat,
               ad_critical = Some ad_crit, ad_significance = Some ad_sig\<rparr>))))"

text \<open>\<open>ks_pvalue < 0.05\<close>\<close>

definition flagged :: "feature_detail \<Rightarrow> bool" where
  "flagged fd = float_lt (ks_pvalue fd) (Fin 0.05)"

text \<open>
  The loop over \<open>range(reference_data.shape[1])\<close>, on the list of indices still to visit.
  The state is \<open>drift_detected\<close>, \<open>drift_details\<close> and the log written so far; an exception
  ends the loop and keeps the log.
\<close>

fun drift_loop ::
  "stats_module \<Rightarrow> batch \<Rightarrow> batch \<Rightarrow> nat list \<Rightarrow> bool \<Rightarrow> drift_details \<Rightarrow> log_record list
     \<Rightarrow> (exn + bool \<times> drift_details) \<times> log_record list" where
  "drift_loop st r c [] dd det lg = (Inr (dd, det), lg)"
| "drift_loop st r c (i # rest) dd det lg =
     (case drift_feature st r c i of
        Inl e \<Rightarrow> (Inl e, lg)
      | Inr fd \<Rightarrow>
          if flagged fd
          then drift_loop st r c rest True (det(feature_name i \<mapsto> fd))
                 (lg @ [DriftWarning i (ks_pvalue fd)])
          else drift_loop st r c rest dd (det(feature_name i \<mapsto> fd)) lg)"

text \<open>
  \<open>detect_data_drift\<close>: the import, the loop, and the outer \<open>except Exception\<close> that logs
  and returns \<open>(False, {})\<close>. The result is the returned pair and the log.
\<close>

definition detect_data_drift ::
  "exn + stats_module \<Rightarrow> batch \<Rightarrow> batch \<Rightarrow> (bool \<times> drift_details) \<times> log_record list" where
  "detect_data_drift scipy reference_data current_data =
     (case scipy of
        Inl e \<Rightarrow> ((False, Map.empty), [DriftError e])
      | Inr st \<Rightarrow>
     (case shape_1 reference_data of
        Inl e \<Rightarrow> ((False, Map.empty), [DriftError e])
      | Inr d \<Rightarrow>
     (case drift_loop st reference_data current_data [0..<d] False Map.empty [] of
        (Inl e, lg) \<Rightarrow> ((False, Map.empty), lg @ [DriftError e])
      | (Inr res, lg) \<Rightarrow> (res, lg))))"

section \<open>The expectation suite\<close>

datatype expectation =
    ExpectTableRowCountToBeBetween int int
  | ExpectTableColumnsToMatchOrderedList "string list"
  | ExpectColumnToExist string
  | ExpectColumnValuesToBeOfType string string
  | ExpectColumnValuesToNotBeNull string
  | ExpectColumnValuesToBeBetween string int int

type_synonym expectation_suite = "expectation list"

text \<open>
  Modelled from the spec: \<open>ExpectationSuite.add_expectation\<close> of Great Expectations, which is
  not part of the repository. The schema is an ordered set of constraints: a constraint of
  the same kind on the same column replaces the one already there, any other is appended.
\<close>

fun same_domain :: "expectation \<Rightarrow> expectation \<Rightarrow> bool" where
  "same_domain (ExpectTableRowCountToBeBetween a b) (ExpectTableRowCountToBeBetween a' b') = True"
| "same_domain (ExpectTableColumnsToMatchOrderedList l) (ExpectTableColumnsToMatchOrderedList l') = True"
| "same_domain (ExpectColumnToExist c) (ExpectColumnToExist c') = (c = c')"
| "same_domain (ExpectColumnValuesToBeOfType c t) (ExpectColumnValuesToBeOfType c' t') = (c = c')"
| "same_domain (ExpectColumnValuesToNotBeNull c) (ExpectColumnValuesToNotBeNull c') = (c = c')"
| "same_domain (ExpectColumnValuesToBeBetween c a b) (ExpectColumnValuesToBeBetween c' a' b') = (c = c')"
| "same_domain _ _ = False"

definition add_expectation :: "expectation_suite \<Rightarrow> expectation \<Rightarrow> expectation_suite" where
  "add_expectation suite e =
     (if list_ex (same_domain e) suite
      then map (\<lambda>x. if same_domain e x then e else x) suite
      else suite @ [e])"

text \<open>The four expectations added for column \<open>i\<close> by one pass of \<open>for i in range(4)\<close>.\<close>

definition add_column_expectations :: "expectation_suite \<Rightarrow> nat \<Rightarrow> expectation_suite" where
  "add_column_expectations suite i =
     add_expectation
       (add_expectation
         (add_expectation
           (add_expectation suite (ExpectColumnToExist (feature_name i)))
           (ExpectColumnValuesToBeOfType (feature_name i) ''float64''))
         (ExpectColumnValuesToNotBeNull (feature_name i)))
       (ExpectColumnValuesToBeBetween (feature_name i) (- 10) 10)"

text \<open>\<open>_create_expectation_suite\<close>: the suite it stores in \<open>self.expectation_suite\<close>.\<close>

definition create_expectation_suite :: expectation_suite where
  "create_expectation_suite =
     foldl add_column_expectations
       (add_expectation
         (add_expectation [] (ExpectTableRowCountToBeBetween 1 10000))
         (ExpectTableColumnsToMatchOrderedList
            [''feature_0'', ''feature_1'', ''feature_2'', ''feature_3'']))
       [0..<4]"

text \<open>The object \<open>DataQualityChecker\<close> and its constructor.\<close>

record checker =
  reference_data_path :: "string option"
  expectation_suite :: expectation_suite

definition init_checker :: "string option \<Rightarrow> checker \<times> log_record list" where
  "init_checker path =
     (\<lparr>reference_data_path = path, expectation_suite = create_expectation_suite\<rparr>,
      [SuiteCreated])"

section \<open>Validation\<close>

text \<open>A pandas data frame: the number of rows and the columns in order, each with its name, dtype and cells.\<close>

record dataframe =
  df_rows :: nat
  df_columns :: "(string \<times> dtype \<times> cell list) list"

text \<open>
  \<open>pd.DataFrame(X, columns=[f"feature_{i}" for i in range(X.shape[1])])\<close>. Reading
  \<open>X.shape[1]\<close> raises for a list and for a one-dimensional array; for a two-dimensional
  array the number of names is the number of columns, so the frame is built.
\<close>

fun make_dataframe :: "batch \<Rightarrow> exn + dataframe" where
  "make_dataframe (Array (Arr2 t n cols)) =
     Inr \<lparr>df_rows = n,
          df_columns = map (\<lambda>i. (feature_name i, t, cols ! i)) [0..<length cols]\<rparr>"
| "make_dataframe (Array (Arr1 t xs)) = Inl IndexError"
| "make_dataframe (PyList rows) = Inl AttributeError"

text \<open>
  \<open>df["target"] = y\<close> for a target vector: a new last column, or ValueError when the length
  of the vector is not the number of rows.
\<close>

definition set_target :: "dataframe \<Rightarrow> dtype \<times> cell list \<Rightarrow> exn + dataframe" where
  "set_target df y =
     (if length (snd y) = df_rows df
      then Inr (df\<lparr>df_columns := df_columns df @ [(''target'', fst y, snd y)]\<rparr>)
      else Inl ValueError)"

fun dtype_name :: "dtype \<Rightarrow> string" where
  "dtype_name Float64 = ''float64''"
| "dtype_name Int64 = ''int64''"
| "dtype_name Object = ''object''"

text \<open>pandas counts \<open>None\<close> and NaN as null.\<close>

fun is_null :: "cell \<Rightarrow> bool" where
  "is_null CNone = True"
| "is_null (CFloat NaN) = True"
| "is_null _ = False"

text \<open>\<open>min_value <= v <= max_value\<close> on one cell; comparing a string with a number raises.\<close>

fun cell_between :: "int \<Rightarrow> int \<Rightarrow> cell \<Rightarrow> exn + bool" where
  "cell_between lo hi (CFloat v) = Inr (float_le (Fin (real_of_int lo)) v \<and> float_le v (Fin (real_of_int hi)))"
| "cell_between lo hi (CInt k) = Inr (lo \<le> k \<and> k \<le> hi)"
| "cell_between lo hi (CStr s) = Inl TypeError"
| "cell_between lo hi CNone = Inl TypeError"

fun all_between :: "int \<Rightarrow> int \<Rightarrow> cell list \<Rightarrow> exn + bool" where
  "all_between lo hi [] = Inr True"
| "all_between lo hi (c # cs) =
     (case cell_between lo hi c of
        Inl e \<Rightarrow> Inl e
      | Inr b \<Rightarrow> (case all_between lo hi cs of Inl e \<Rightarrow> Inl e | Inr bs \<Rightarrow> Inr (b \<and> bs)))"

definition find_column :: "dataframe \<Rightarrow> string \<Rightarrow> exn + dtype \<times> cell list" where
  "find_column df c = (case map_of (df_columns df) c of None \<Rightarrow> Inl ValueError | Some col \<Rightarrow> Inr col)"

text \<open>
  Modelled from the spec: the evaluation of one constraint by Great Expectations, which is
  not part of the repository. Row count between the bounds, inclusive; column list equal to
  the expected list, in order; column present; column of the named type; no null in the
  column; every value of the column that is not null within the bounds, inclusive. A
  constraint on a column that is absent raises, as does a comparison that Python rejects.
\<close>

fun evaluate_expectation :: "dataframe \<Rightarrow> expectation \<Rightarrow> exn + bool" where
  "evaluate_expectation df (ExpectTableRowCountToBeBetween lo hi) =
     Inr (lo \<le> int (df_rows df) \<and> int (df_rows df) \<le> hi)"
| "evaluate_expectation df (ExpectTableColumnsToMatchOrderedList names) =
     Inr (map fst (df_columns df) = names)"
| "evaluate_expectation df (ExpectColumnToExist c) =
     Inr (c \<in> set (map fst (df_columns df)))"
| "evaluate_expectation df (ExpectColumnValuesToBeOfType c ty) =
     (case find_column df c of Inl e \<Rightarrow> Inl e | Inr (t, cells) \<Rightarrow> Inr (dtype_name t = ty))"
| "evaluate_expectation df (ExpectColumnValuesToNotBeNull c) =
     (case find_column df c of Inl e \<Rightarrow> Inl e | Inr (t, cells) \<Rightarrow> Inr (list_all (\<lambda>x. \<not> is_null x) cells))"
| "evaluate_expectation df (ExpectColumnValuesToBeBetween c lo hi) =
     (case find_column df c of
        Inl e \<Rightarrow> Inl e
      | Inr (t, cells) \<Rightarrow> all_between lo hi (filter (\<lambda>x. \<not> is_null x) cells))"

text \<open>
  Modelled from the spec: \<open>PandasDataset(df, expectation_suite=suite).validate()\<close>. Every
  constraint is evaluated, in the order of the suite and without short-circuit; a constraint
  whose evaluation raises counts as failed; \<open>success\<close> is the conjunction of the outcomes.
\<close>

definition outcomes :: "dataframe \<Rightarrow> expectation_suite \<Rightarrow> bool list" where
  "outcomes df suite =
     map (\<lambda>e. case evaluate_expectation df e of Inl ex \<Rightarrow> False | Inr b \<Rightarrow> b) suite"

definition validate :: "dataframe \<Rightarrow> expectation_suite \<Rightarrow> bool \<times> statistics" where
  "validate df suite =
     (let rs = outcomes df suite
      in (list_all id rs,
          \<lparr>evaluated_expectations = length rs,
           successful_expectations = length (filter id rs),
           unsuccessful_expectations = length (filter Not rs)\<rparr>))"

text \<open>
  \<open>validate_training_data\<close>: the body of the \<open>try\<close>, then the function with its
  \<open>except Exception\<close>. The result is the returned boolean and the log.
\<close>

definition training_body :: "checker \<Rightarrow> batch \<Rightarrow> dtype \<times> cell list \<Rightarrow> exn + bool \<times> statistics" where
  "training_body self X y =
     (case make_dataframe X of
        Inl e \<Rightarrow> Inl e
      | Inr df \<Rightarrow>
     (case set_target df y of
        Inl e \<Rightarrow> Inl e
      | Inr df' \<Rightarrow> Inr (validate df' (expectation_suite self))))"

definition validate_training_data ::
  "checker \<Rightarrow> batch \<Rightarrow> dtype \<times> cell list \<Rightarrow> bool \<times> log_record list" where
  "validate_training_data self X y =
     (case training_body self X y of
        Inl e \<Rightarrow> (False, [ValidationError e])
      | Inr (success, stats) \<Rightarrow>
          if success then (True, [TrainingPassed]) else (False, [TrainingFailed stats]))"

text \<open>\<open>validate_inference_data\<close>, in the same way.\<close>

definition inference_body :: "checker \<Rightarrow> batch \<Rightarrow> exn + bool \<times> statistics" where
  "inference_body self X =
     (case make_dataframe X of
        Inl e \<Rightarrow> Inl e
      | Inr df \<Rightarrow> Inr (validate df (expectation_suite self)))"

definition validate_inference_data :: "checker \<Rightarrow> batch \<Rightarrow> bool \<times> log_record list" where
  "validate_inference_data self X =
     (case inference_body self X of
        Inl e \<Rightarrow> (False, [ValidationError e])
      | Inr (success, stats) \<Rightarrow>
          if success then (True, [InferencePassed]) else (False, [InferenceFailed stats]))"

section \<open>The reference store\<close>















section \<open>Vocabulary of the statements\<close>

text \<open>
  The Kolmogorov-Smirnov result and the Anderson-Darling result for column \<open>i\<close>: the test
  applied to the two slices the loop takes.
\<close>

definition ks_column :: "stats_module \<Rightarrow> batch \<Rightarrow> batch \<Rightarrow> nat \<Rightarrow> exn + (float64 \<times> float64)" where
  "ks_column st r c i =
     (case get_column r i of
        Inl e \<Rightarrow> Inl e
      | Inr rc \<Rightarrow> (case get_column c i of Inl e \<Rightarrow> Inl e | Inr cc \<Rightarrow> ks_2samp st rc cc))"

definition ad_column ::
  "stats_module \<Rightarrow> batch \<Rightarrow> batch \<Rightarrow> nat \<Rightarrow> exn + (float64 \<times> float64 list \<times> float64)" where
  "ad_column st r c i =
     (case get_column r i of
        Inl e \<Rightarrow> Inl e
      | Inr rc \<Rightarrow> (case get_column c i of Inl e \<Rightarrow> Inl e | Inr cc \<Rightarrow> anderson_ksamp st [rc, cc]))"

text \<open>Feature \<open>i\<close> is flagged when the loop has logged its drift warning.\<close>

fun is_warning_for :: "nat \<Rightarrow> log_record \<Rightarrow> bool" where
  "is_warning_for i (DriftWarning j p) = (i = j)"
| "is_warning_for i _ = False"

definition warned :: "log_record list \<Rightarrow> nat \<Rightarrow> bool" where
  "warned lg i = list_ex (is_warning_for i) lg"

fun is_drift_error :: "log_record \<Rightarrow> bool" where
  "is_drift_error (DriftError e) = True"
| "is_drift_error _ = False"


text \<open>A cell that holds a number: a float other than NaN, or an integer.\<close>

fun is_number :: "cell \<Rightarrow> bool" where
  "is_number (CFloat NaN) = False"
| "is_number (CFloat v) = True"
| "is_number (CInt k) = True"
| "is_number _ = False"

text \<open>A tabular batch of numbers: a well-formed two-dimensional array whose cells all hold numbers.\<close>

fun numeric_batch :: "batch \<Rightarrow> bool" where
  "numeric_batch (Array (Arr2 t n cols)) =
     list_all (\<lambda>col. length col = n \<and> list_all is_number col) cols"
| "numeric_batch _ = False"

text \<open>The first \<open>d\<close> columns of a two-dimensional array, \<open>X[:, :d]\<close>.\<close>

fun take_columns :: "nat \<Rightarrow> batch \<Rightarrow> batch" where
  "take_columns d (Array (Arr2 t n cols)) = Array (Arr2 t n (take d cols))"
| "take_columns d b = b"

text \<open>
  The four constraints the suite holds for one column, and whether a constraint is about a
  given column; used to state what the construction loop adds.
\<close>

definition column_expectations :: "string \<Rightarrow> expectation list" where
  "column_expectations c =
     [ExpectColumnToExist c, ExpectColumnValuesToBeOfType c ''float64'',
      ExpectColumnValuesToNotBeNull c, ExpectColumnValuesToBeBetween c (- 10) 10]"

fun about_column :: "string \<Rightarrow> expectation \<Rightarrow> bool" where
  "about_column c (ExpectColumnToExist c') = (c = c')"
| "about_column c (ExpectColumnValuesToBeOfType c' t) = (c = c')"
| "about_column c (ExpectColumnValuesToNotBeNull c') = (c = c')"
| "about_column c (ExpectColumnValuesToBeBetween c' a b) = (c = c')"
| "about_column c _ = False"

text \<open>
  A batch that meets every constraint of the suite (one row, four float64 columns, every
  value 0), a target vector for it, and the data frame built from the batch.
\<close>

definition example_batch :: batch where
  "example_batch =
     Array (Arr2 Float64 1
       [[CFloat (Fin 0)], [CFloat (Fin 0)], [CFloat (Fin 0)], [CFloat (Fin 0)]])"

definition example_target :: "dtype \<times> cell list" where
  "example_target = (Int64, [CInt 0])"

definition example_frame :: dataframe where
  "example_frame =
     \<lparr>df_rows = 1,
      df_columns =
        [(''feature_0'', Float64, [CFloat (Fin 0)]), (''feature_1'', Float64, [CFloat (Fin 0)]),
         (''feature_2'', Float64, [CFloat (Fin 0)]), (''feature_3'', Float64, [CFloat (Fin 0)])]\<rparr>"




text \<open>
  A stand-in for \<open>scipy.stats\<close>, used where a statement is instantiated on concrete data:
  its Kolmogorov-Smirnov test raises on an empty sample, returns statistic 0 and p-value 1
  on two equal samples and statistic 1 and p-value 0 otherwise; its Anderson-Darling test
  raises unless there are two distinct observations.
\<close>

definition stub_stats :: stats_module where
  "stub_stats =
     \<lparr>ks_2samp = (\<lambda>x y. if x = [] \<or> y = [] then Inl ValueError
                        else if x = y then Inr (Fin 0, Fin 1) else Inr (Fin 1, Fin 0)),
      anderson_ksamp = (\<lambda>xs. if length (remdups (concat xs)) < 2 then Inl ValueError
                              else Inr (Fin 0, [Fin 1], Fin (1 / 4)))\<rparr>"


text \<open>Concrete batches: two rows and two columns; the second columns differ.\<close>

definition example_reference :: batch where
  "example_reference =
     Array (Arr2 Float64 2 [[CFloat (Fin 0), CFloat (Fin 1)], [CFloat (Fin 2), CFloat (Fin 3)]])"

definition example_current :: batch where
  "example_current =
     Array (Arr2 Float64 2 [[CFloat (Fin 0), CFloat (Fin 1)], [CFloat (Fin 7), CFloat (Fin 8)]])"

text \<open>Further concrete batches: one with a constant column, one of width 1, one without rows.\<close>

definition example_tied :: batch where
  "example_tied =
     Array (Arr2 Float64 2 [[CFloat (Fin 0), CFloat (Fin 1)], [CFloat (Fin 5), CFloat (Fin 5)]])"

definition example_narrow :: batch where
  "example_narrow = Array (Arr2 Float64 2 [[CFloat (Fin 7), CFloat (Fin 8)]])"



section \<open>Properties of the formatting\<close>

lemma of_char_digit_char: "d < 10 \<Longrightarrow> of_char (digit_char d) = (48 + d :: nat)"
proof -
  assume "d < 10"
  then have "d \<in> {0, 1, 2, 3, 4, 5, 6, 7, 8, 9}" by auto
  then show ?thesis
    unfolding digit_char_def by auto
qed

lemma nat_of_str_snoc: "nat_of_str (s @ [c]) = 10 * nat_of_str s + (of_char c - 48)"
  by (simp add: nat_of_str_def)

lemma nat_of_str_str_nat: "nat_of_str (str_nat n) = n"
proof (induction n rule: str_nat.induct)
  case (1 n)
  show ?case
  proof (cases "n < 10")
    case True
    then show ?thesis
      by (subst str_nat.simps) (simp add: nat_of_str_def of_char_digit_char)
  next
    case False
    with 1 have ih: "nat_of_str (str_nat (n div 10)) = n div 10" by simp
    have "n mod 10 < 10" by simp
    then have "of_char (digit_char (n mod 10)) = 48 + n mod 10"
      by (rule of_char_digit_char)
    with False ih show ?thesis
      by (subst str_nat.simps) (simp add: nat_of_str_snoc)
  qed
qed

lemma str_nat_inj: "str_nat a = str_nat b \<Longrightarrow> a = b"
  by (metis nat_of_str_str_nat)

lemma feature_name_inj [simp]: "feature_name a = feature_name b \<longleftrightarrow> a = b"
  by (auto simp: feature_name_def dest: str_nat_inj)

section \<open>Properties of the drift loop\<close>

lemma drift_loop_ok:
  "\<forall>i\<in>set ixs. drift_feature st r c i = Inr (f i) \<Longrightarrow>
   drift_loop st r c ixs dd det lg =
     (Inr (dd \<or> (\<exists>i\<in>set ixs. flagged (f i)),
           foldl (\<lambda>m i. m(feature_name i \<mapsto> f i)) det ixs),
      lg @ map (\<lambda>i. DriftWarning i (ks_pvalue (f i))) (filter (\<lambda>i. flagged (f i)) ixs))"
proof (induction ixs arbitrary: dd det lg)
  case Nil
  then show ?case by simp
next
  case (Cons i rest)
  then have step: "drift_feature st r c i = Inr (f i)"
    and rest: "\<forall>j\<in>set rest. drift_feature st r c j = Inr (f j)" by simp_all
  show ?case
    using Cons.IH [OF rest] step by auto
qed

lemma drift_loop_fail:
  "i \<in> set ixs \<Longrightarrow> drift_feature st r c i = Inl e \<Longrightarrow>
   \<exists>e' lg'. drift_loop st r c ixs dd det lg = (Inl e', lg')"
proof (induction ixs arbitrary: dd det lg)
  case Nil
  then show ?case by simp
next
  case (Cons j rest)
  show ?case
  proof (cases "drift_feature st r c j")
    case (Inl e'')
    then show ?thesis by simp
  next
    case (Inr fd)
    with Cons.prems have "i \<in> set rest" by auto
    from Cons.IH [OF this Cons.prems(2)] Inr show ?thesis by simp
  qed
qed

lemma drift_loop_cong:
  "\<forall>i\<in>set ixs. drift_feature st r c i = drift_feature st r c' i \<Longrightarrow>
   drift_loop st r c ixs dd det lg = drift_loop st r c' ixs dd det lg"
  by (induction ixs arbitrary: dd det lg) (auto split: sum.splits)

lemma details_lookup:
  "foldl (\<lambda>m i. m(feature_name i \<mapsto> f i)) det ixs (feature_name j) =
     (if j \<in> set ixs then Some (f j) else det (feature_name j))"
  by (induction ixs arbitrary: det) auto

lemma details_dom:
  "dom (foldl (\<lambda>m i. m(feature_name i \<mapsto> f i)) det ixs) = dom det \<union> feature_name ` set ixs"
  by (induction ixs arbitrary: det) auto

lemma warned_warnings:
  "warned (map (\<lambda>i. DriftWarning i (g i)) (filter P ixs)) j \<longleftrightarrow> j \<in> set ixs \<and> P j"
  by (induction ixs) (auto simp: warned_def)

lemma no_error_in_warnings:
  "\<not> list_ex is_drift_error (map (\<lambda>i. DriftWarning i (g i)) ixs)"
  by (induction ixs) auto

lemma detect_ok:
  assumes "shape_1 r = Inr d" and "\<forall>i<d. drift_feature st r c i = Inr (f i)"
  shows "detect_data_drift (Inr st) r c =
    ((\<exists>i<d. flagged (f i), foldl (\<lambda>m i. m(feature_name i \<mapsto> f i)) Map.empty [0..<d]),
     map (\<lambda>i. DriftWarning i (ks_pvalue (f i))) (filter (\<lambda>i. flagged (f i)) [0..<d]))"
proof -
  from assms(2) have "\<forall>i\<in>set [0..<d]. drift_feature st r c i = Inr (f i)" by simp
  from drift_loop_ok [OF this, of False Map.empty "[]"] assms(1)
  show ?thesis by (auto simp: detect_data_drift_def)
qed

lemma detect_fail:
  assumes "shape_1 r = Inr d" and "i < d" and "drift_feature st r c i = Inl e"
  shows "\<exists>e' lg. detect_data_drift (Inr st) r c = ((False, Map.empty), lg @ [DriftError e'])"
proof -
  from assms(2) have "i \<in> set [0..<d]" by simp
  from drift_loop_fail [OF this assms(3), of False Map.empty "[]"]
  obtain e' lg' where "drift_loop st r c [0..<d] False Map.empty [] = (Inl e', lg')" by blast
  with assms(1) show ?thesis by (simp add: detect_data_drift_def)
qed

lemma drift_feature_ks:
  "ks_column st r c i = Inr (s, p) \<Longrightarrow>
   \<exists>fd. drift_feature st r c i = Inr fd \<and> ks_statistic fd = s \<and> ks_pvalue fd = p"
  by (auto simp: ks_column_def drift_feature_def split: sum.splits)

lemma drift_feature_ks_fail:
  "ks_column st r c i = Inl e \<Longrightarrow> drift_feature st r c i = Inl e"
  by (auto simp: ks_column_def drift_feature_def split: sum.splits)

lemma drift_feature_ad:
  "drift_feature st r c i = Inr fd \<Longrightarrow>
   (case ad_column st r c i of
      Inl e \<Rightarrow> ad_statistic fd = None \<and> ad_critical fd = None \<and> ad_significance fd = None
    | Inr (a, cr, sg) \<Rightarrow>
        ad_statistic fd = Some a \<and> ad_critical fd = Some cr \<and> ad_significance fd = Some sg)"
  by (auto simp: ad_column_def drift_feature_def split: sum.splits)

section \<open>Claims about drift detection\<close>

text \<open>
  C1. For two batches of the same width \<open>d\<close> on whose columns the Kolmogorov-Smirnov test
  returns (as it does on samples of two or more rows), feature \<open>i\<close> is flagged exactly when
  the p-value computed for column \<open>i\<close> is strictly below 0.05, the report holds that p-value
  under \<open>feature_i\<close>, and \<open>drift_detected\<close> is true exactly when some feature is flagged.
\<close>

theorem detect_flags_by_ks_pvalue:
  assumes "shape_1 r = Inr d" and "shape_1 c = Inr d"
    and "\<forall>i<d. ks_column st r c i = Inr (s i, p i)"
  shows "(\<forall>i<d. warned (snd (detect_data_drift (Inr st) r c)) i \<longleftrightarrow> float_lt (p i) (Fin 0.05))
       \<and> (\<forall>i<d. \<exists>fd. snd (fst (detect_data_drift (Inr st) r c)) (feature_name i) = Some fd
                 \<and> ks_pvalue fd = p i)
       \<and> (fst (fst (detect_data_drift (Inr st) r c))
            \<longleftrightarrow> (\<exists>i<d. warned (snd (detect_data_drift (Inr st) r c)) i))"
proof -
  define f where "f = (\<lambda>i. projr (drift_feature st r c i))"
  have f: "drift_feature st r c i = Inr (f i) \<and> ks_pvalue (f i) = p i" if "i < d" for i
    using drift_feature_ks [of st r c i "s i" "p i"] assms(3) that by (auto simp: f_def)
  then have "\<forall>i<d. drift_feature st r c i = Inr (f i)" by simp
  note eq = detect_ok [OF assms(1) this]
  have flag: "flagged (f i) \<longleftrightarrow> float_lt (p i) (Fin 0.05)" if "i < d" for i
    using f [OF that] by (simp add: flagged_def)
  show ?thesis
    unfolding eq using f flag by (simp add: warned_warnings details_lookup)
qed

lemma example_ks_columns:
  "\<forall>i<2. ks_column stub_stats example_reference example_current i =
     Inr (if i = 0 then Fin 0 else Fin 1, if i = 0 then Fin 1 else Fin 0)"
  by (auto simp: less_2_cases_iff ks_column_def stub_stats_def example_reference_def
      example_current_def)

theorem detect_flags_by_ks_pvalue_witness:
  "shape_1 example_reference = Inr 2 \<and> shape_1 example_current = Inr 2
   \<and> ks_column stub_stats example_reference example_current 0 = Inr (Fin 0, Fin 1)
   \<and> ks_column stub_stats example_reference example_current 1 = Inr (Fin 1, Fin 0)
   \<and> \<not> warned (snd (detect_data_drift (Inr stub_stats) example_reference example_current)) 0
   \<and> warned (snd (detect_data_drift (Inr stub_stats) example_reference example_current)) 1
   \<and> fst (fst (detect_data_drift (Inr stub_stats) example_reference example_current))"
proof -
  have h1: "shape_1 example_reference = Inr 2" by (simp add: example_reference_def)
  have h2: "shape_1 example_current = Inr 2" by (simp add: example_current_def)
  note h3 = example_ks_columns
  from detect_flags_by_ks_pvalue [OF h1 h2 h3] h1 h2 h3 show ?thesis
    by (auto simp: less_2_cases_iff)
qed

lemma ks_column_drift_feature:
  "ks_column st r c i = Inr (s, p) \<Longrightarrow> drift_feature st r c i = Inr fd \<Longrightarrow>
   ks_statistic fd = s \<and> ks_pvalue fd = p"
  using drift_feature_ks [of st r c i s p] by auto

lemma detect_entries:
  assumes "shape_1 r = Inr d" and "\<forall>i<d. ks_column st r c i = Inr (s i, p i)"
  shows "\<exists>f. (\<forall>i<d. drift_feature st r c i = Inr (f i) \<and> ks_statistic (f i) = s i
               \<and> ks_pvalue (f i) = p i)
           \<and> detect_data_drift (Inr st) r c =
               ((\<exists>i<d. flagged (f i),
                 foldl (\<lambda>m i. m(feature_name i \<mapsto> f i)) Map.empty [0..<d]),
                map (\<lambda>i. DriftWarning i (ks_pvalue (f i))) (filter (\<lambda>i. flagged (f i)) [0..<d]))"
proof -
  define f where "f = (\<lambda>i. projr (drift_feature st r c i))"
  have f: "drift_feature st r c i = Inr (f i) \<and> ks_statistic (f i) = s i \<and> ks_pvalue (f i) = p i"
    if "i < d" for i
    using drift_feature_ks [of st r c i "s i" "p i"] assms(2) that by (auto simp: f_def)
  then have "\<forall>i<d. drift_feature st r c i = Inr (f i)" by simp
  from detect_ok [OF assms(1) this] f show ?thesis by blast
qed

text \<open>
  C6. For two batches of the same width on whose columns the Kolmogorov-Smirnov test
  returns: when the Anderson-Darling test raises for feature \<open>j\<close>, the report holds
  \<open>None\<close> for the three Anderson-Darling outputs of feature \<open>j\<close> together with its
  Kolmogorov-Smirnov result; every feature has its entry, with the Anderson-Darling outputs
  wherever that test returned; and no error is logged.
\<close>

theorem anderson_failure_is_local:
  assumes "shape_1 r = Inr d" and "shape_1 c = Inr d"
    and "\<forall>i<d. ks_column st r c i = Inr (s i, p i)"
    and "j < d" and "ad_column st r c j = Inl e"
  shows "(\<exists>fd. snd (fst (detect_data_drift (Inr st) r c)) (feature_name j) = Some fd
            \<and> ad_statistic fd = None \<and> ad_critical fd = None \<and> ad_significance fd = None
            \<and> ks_statistic fd = s j \<and> ks_pvalue fd = p j)
       \<and> (\<forall>i<d. \<exists>fd. snd (fst (detect_data_drift (Inr st) r c)) (feature_name i) = Some fd
            \<and> ks_statistic fd = s i \<and> ks_pvalue fd = p i
            \<and> (case ad_column st r c i of
                  Inl e' \<Rightarrow> ad_statistic fd = None \<and> ad_critical fd = None
                            \<and> ad_significance fd = None
                | Inr (a, cr, sg) \<Rightarrow> ad_statistic fd = Some a \<and> ad_critical fd = Some cr
                            \<and> ad_significance fd = Some sg))
       \<and> dom (snd (fst (detect_data_drift (Inr st) r c))) = feature_name ` {..<d}
       \<and> \<not> list_ex is_drift_error (snd (detect_data_drift (Inr st) r c))"
proof -
  from detect_entries [OF assms(1) assms(3)] obtain f where
    f: "\<forall>i<d. drift_feature st r c i = Inr (f i) \<and> ks_statistic (f i) = s i
          \<and> ks_pvalue (f i) = p i"
    and eq: "detect_data_drift (Inr st) r c =
      ((\<exists>i<d. flagged (f i), foldl (\<lambda>m i. m(feature_name i \<mapsto> f i)) Map.empty [0..<d]),
       map (\<lambda>i. DriftWarning i (ks_pvalue (f i))) (filter (\<lambda>i. flagged (f i)) [0..<d]))"
    by blast
  have ad: "case ad_column st r c i of
              Inl e' \<Rightarrow> ad_statistic (f i) = None \<and> ad_critical (f i) = None
                        \<and> ad_significance (f i) = None
            | Inr (a, cr, sg) \<Rightarrow> ad_statistic (f i) = Some a \<and> ad_critical (f i) = Some cr
                        \<and> ad_significance (f i) = Some sg" if "i < d" for i
    using f that drift_feature_ad [of st r c i "f i"] by simp
  have lookup: "snd (fst (detect_data_drift (Inr st) r c)) (feature_name i) = Some (f i)"
    if "i < d" for i
    unfolding eq using that by (simp add: details_lookup)
  have one: "\<exists>fd. snd (fst (detect_data_drift (Inr st) r c)) (feature_name j) = Some fd
            \<and> ad_statistic fd = None \<and> ad_critical fd = None \<and> ad_significance fd = None
            \<and> ks_statistic fd = s j \<and> ks_pvalue fd = p j"
    using lookup [OF assms(4)] ad [OF assms(4)] f assms(4,5) by simp
  have all: "\<forall>i<d. \<exists>fd. snd (fst (detect_data_drift (Inr st) r c)) (feature_name i) = Some fd
            \<and> ks_statistic fd = s i \<and> ks_pvalue fd = p i
            \<and> (case ad_column st r c i of
                  Inl e' \<Rightarrow> ad_statistic fd = None \<and> ad_critical fd = None
                            \<and> ad_significance fd = None
                | Inr (a, cr, sg) \<Rightarrow> ad_statistic fd = Some a \<and> ad_critical fd = Some cr
                            \<and> ad_significance fd = Some sg)"
    using lookup ad f by simp
  have dom: "dom (snd (fst (detect_data_drift (Inr st) r c))) = feature_name ` {..<d}"
    unfolding eq by (simp add: details_dom lessThan_atLeast0)
  have noerr: "\<not> list_ex is_drift_error (snd (detect_data_drift (Inr st) r c))"
    unfolding eq by (simp add: no_error_in_warnings)
  from one all dom noerr show ?thesis by blast
qed

theorem anderson_failure_is_local_witness:
  "shape_1 example_tied = Inr 2
   \<and> ks_column stub_stats example_tied example_tied 0 = Inr (Fin 0, Fin 1)
   \<and> ks_column stub_stats example_tied example_tied 1 = Inr (Fin 0, Fin 1)
   \<and> ad_column stub_stats example_tied example_tied 1 = Inl ValueError
   \<and> ad_column stub_stats example_tied example_tied 0 = Inr (Fin 0, [Fin 1], Fin (1 / 4))
   \<and> (\<exists>fd. snd (fst (detect_data_drift (Inr stub_stats) example_tied example_tied))
              (feature_name 1) = Some fd
         \<and> ad_statistic fd = None \<and> ad_critical fd = None \<and> ad_significance fd = None
         \<and> ks_statistic fd = Fin 0 \<and> ks_pvalue fd = Fin 1)
   \<and> (\<exists>fd. snd (fst (detect_data_drift (Inr stub_stats) example_tied example_tied))
              (feature_name 0) = Some fd
         \<and> ad_statistic fd = Some (Fin 0) \<and> ks_pvalue fd = Fin 1)"
proof -
  have h1: "shape_1 example_tied = Inr 2" by (simp add: example_tied_def)
  have k0: "ks_column stub_stats example_tied example_tied 0 = Inr (Fin 0, Fin 1)"
    by (simp add: ks_column_def stub_stats_def example_tied_def)
  have k1: "ks_column stub_stats example_tied example_tied 1 = Inr (Fin 0, Fin 1)"
    by (simp add: ks_column_def stub_stats_def example_tied_def)
  have h3: "\<forall>i<2. ks_column stub_stats example_tied example_tied i =
      Inr ((\<lambda>i. Fin 0) i, (\<lambda>i. Fin 1) i)"
    using k0 k1 by (auto simp: less_2_cases_iff)
  have h4: "(1::nat) < 2" by simp
  have h5: "ad_column stub_stats example_tied example_tied 1 = Inl ValueError"
    by (simp add: ad_column_def stub_stats_def example_tied_def)
  have a0: "ad_column stub_stats example_tied example_tied 0 = Inr (Fin 0, [Fin 1], Fin (1 / 4))"
    by (simp add: ad_column_def stub_stats_def example_tied_def)
  have z: "(0::nat) < 2" by simp
  from anderson_failure_is_local [OF h1 h1 h3 h4 h5]
  have one: "\<exists>fd. snd (fst (detect_data_drift (Inr stub_stats) example_tied example_tied))
              (feature_name 1) = Some fd
         \<and> ad_statistic fd = None \<and> ad_critical fd = None \<and> ad_significance fd = None
         \<and> ks_statistic fd = Fin 0 \<and> ks_pvalue fd = Fin 1"
    and all: "\<forall>i<2. \<exists>fd. snd (fst (detect_data_drift (Inr stub_stats) example_tied example_tied))
              (feature_name i) = Some fd
            \<and> ks_statistic fd = Fin 0 \<and> ks_pvalue fd = Fin 1
            \<and> (case ad_column stub_stats example_tied example_tied i of
                  Inl e' \<Rightarrow> ad_statistic fd = None \<and> ad_critical fd = None
                            \<and> ad_significance fd = None
                | Inr (a, cr, sg) \<Rightarrow> ad_statistic fd = Some a \<and> ad_critical fd = Some cr
                            \<and> ad_significance fd = Some sg)"
    by blast+
  from all z a0
  have zero: "\<exists>fd. snd (fst (detect_data_drift (Inr stub_stats) example_tied example_tied))
              (feature_name 0) = Some fd
         \<and> ad_statistic fd = Some (Fin 0) \<and> ks_pvalue fd = Fin 1"
    by fastforce
  from h1 k0 k1 h5 a0 one zero show ?thesis by blast
qed

text \<open>
  C8. For a numeric reference batch of two or more rows, under the library contract that the
  Kolmogorov-Smirnov test of a non-empty sample of numbers against itself returns statistic
  0 and p-value 1: comparing the reference with itself gives \<open>drift_detected = False\<close> and,
  for every feature, p-value 1 and statistic 0.
\<close>

lemma numeric_column:
  "numeric_batch r \<Longrightarrow> shape_1 r = Inr d \<Longrightarrow> i < d \<Longrightarrow>
   \<exists>col. get_column r i = Inr col \<and> length col = row_count r \<and> list_all is_number col"
  by (cases r rule: numeric_batch.cases) (auto simp: list_all_length)

theorem detect_reference_against_itself:
  assumes "numeric_batch r" and "2 \<le> row_count r"
    and "\<forall>x. x \<noteq> [] \<and> list_all is_number x \<longrightarrow> ks_2samp st x x = Inr (Fin 0, Fin 1)"
  shows "\<exists>d. shape_1 r = Inr d
       \<and> fst (fst (detect_data_drift (Inr st) r r)) = False
       \<and> (\<forall>i<d. \<exists>fd. snd (fst (detect_data_drift (Inr st) r r)) (feature_name i) = Some fd
              \<and> ks_pvalue fd = Fin 1 \<and> ks_statistic fd = Fin 0)"
proof -
  from assms(1) obtain d where d: "shape_1 r = Inr d"
    by (cases r rule: numeric_batch.cases) auto
  have ks: "\<forall>i<d. ks_column st r r i = Inr ((\<lambda>i. Fin 0) i, (\<lambda>i. Fin 1) i)"
  proof (intro allI impI)
    fix i assume "i < d"
    from numeric_column [OF assms(1) d this] obtain col where
      col: "get_column r i = Inr col" "length col = row_count r" "list_all is_number col"
      by blast
    with assms(2) have "col \<noteq> []" by auto
    with assms(3) col show "ks_column st r r i = Inr ((\<lambda>i. Fin 0) i, (\<lambda>i. Fin 1) i)"
      by (simp add: ks_column_def)
  qed
  from detect_entries [OF d ks] obtain f where
    f: "\<forall>i<d. drift_feature st r r i = Inr (f i) \<and> ks_statistic (f i) = Fin 0
          \<and> ks_pvalue (f i) = Fin 1"
    and eq: "detect_data_drift (Inr st) r r =
      ((\<exists>i<d. flagged (f i), foldl (\<lambda>m i. m(feature_name i \<mapsto> f i)) Map.empty [0..<d]),
       map (\<lambda>i. DriftWarning i (ks_pvalue (f i))) (filter (\<lambda>i. flagged (f i)) [0..<d]))"
    by blast
  have "\<not> flagged (f i)" if "i < d" for i
    using f that by (simp add: flagged_def)
  then have nodrift: "fst (fst (detect_data_drift (Inr st) r r)) = False"
    unfolding eq by auto
  have "\<forall>i<d. \<exists>fd. snd (fst (detect_data_drift (Inr st) r r)) (feature_name i) = Some fd
              \<and> ks_pvalue fd = Fin 1 \<and> ks_statistic fd = Fin 0"
    unfolding eq using f by (simp add: details_lookup)
  with d nodrift show ?thesis by blast
qed

lemma stub_ks_identical:
  "\<forall>x. x \<noteq> [] \<and> list_all is_number x \<longrightarrow> ks_2samp stub_stats x x = Inr (Fin 0, Fin 1)"
  by (simp add: stub_stats_def)

theorem detect_reference_against_itself_witness:
  "numeric_batch example_reference \<and> 2 \<le> row_count example_reference
   \<and> shape_1 example_reference = Inr 2
   \<and> fst (fst (detect_data_drift (Inr stub_stats) example_reference example_reference)) = False
   \<and> (\<exists>fd. snd (fst (detect_data_drift (Inr stub_stats) example_reference example_reference))
              (feature_name 0) = Some fd \<and> ks_pvalue fd = Fin 1 \<and> ks_statistic fd = Fin 0)
   \<and> (\<exists>fd. snd (fst (detect_data_drift (Inr stub_stats) example_reference example_reference))
              (feature_name 1) = Some fd \<and> ks_pvalue fd = Fin 1 \<and> ks_statistic fd = Fin 0)"
proof -
  have h1: "numeric_batch example_reference" by (simp add: example_reference_def)
  have h2: "2 \<le> row_count example_reference" by (simp add: example_reference_def)
  have sh: "shape_1 example_reference = Inr 2" by (simp add: example_reference_def)
  from detect_reference_against_itself [OF h1 h2 stub_ks_identical] sh
  have "fst (fst (detect_data_drift (Inr stub_stats) example_reference example_reference)) = False
      \<and> (\<forall>i<2. \<exists>fd. snd (fst (detect_data_drift (Inr stub_stats) example_reference
              example_reference)) (feature_name i) = Some fd
              \<and> ks_pvalue fd = Fin 1 \<and> ks_statistic fd = Fin 0)"
    by auto
  with h1 h2 sh show ?thesis by (auto simp: less_2_cases_iff)
qed








text \<open>
  C10. When the current batch is wider than the reference (width \<open>d\<close>), the outcome is
  that of the comparison with the first \<open>d\<close> columns of the current batch: the report has
  keys among \<open>feature_0 .. feature_{d-1}\<close> only, and when the Kolmogorov-Smirnov test
  returns on those \<open>d\<close> columns the report has exactly these keys and no error is logged.
\<close>

lemma take_columns_column:
  "shape_1 c = Inr d' \<Longrightarrow> i < d \<Longrightarrow> d \<le> d' \<Longrightarrow>
   get_column (take_columns d c) i = get_column c i"
  by (cases c rule: shape_1.cases) auto

lemma take_columns_feature:
  assumes "shape_1 c = Inr d'" and "i < d" and "d \<le> d'"
  shows "drift_feature st r (take_columns d c) i = drift_feature st r c i"
  unfolding drift_feature_def by (simp only: take_columns_column [OF assms])

lemma detect_take_columns:
  assumes "shape_1 r = Inr d" and "shape_1 c = Inr d'" and "d \<le> d'"
  shows "detect_data_drift (Inr st) r c = detect_data_drift (Inr st) r (take_columns d c)"
proof -
  have "\<forall>i\<in>set [0..<d]. drift_feature st r c i = drift_feature st r (take_columns d c) i"
    using take_columns_feature [OF assms(2) _ assms(3)] by simp
  from drift_loop_cong [OF this] assms(1) show ?thesis
    by (simp add: detect_data_drift_def)
qed

lemma detect_dom_subset:
  assumes "shape_1 r = Inr d"
  shows "dom (snd (fst (detect_data_drift (Inr st) r c))) \<subseteq> feature_name ` {..<d}"
proof (cases "\<forall>i<d. \<exists>fd. drift_feature st r c i = Inr fd")
  case True
  define f where "f = (\<lambda>i. projr (drift_feature st r c i))"
  from True have "\<forall>i<d. drift_feature st r c i = Inr (f i)" by (auto simp: f_def)
  from detect_ok [OF assms this] show ?thesis
    by (simp add: details_dom lessThan_atLeast0)
next
  case False
  then obtain i e where "i < d" "drift_feature st r c i = Inl e"
    by (metis sum.exhaust_sel)
  from detect_fail [OF assms this] show ?thesis by auto
qed

theorem detect_ignores_extra_columns:
  assumes "shape_1 r = Inr d" and "shape_1 c = Inr d'" and "d < d'"
  shows "detect_data_drift (Inr st) r c = detect_data_drift (Inr st) r (take_columns d c)
       \<and> shape_1 (take_columns d c) = Inr d
       \<and> dom (snd (fst (detect_data_drift (Inr st) r c))) \<subseteq> feature_name ` {..<d}
       \<and> ((\<forall>i<d. \<exists>res. ks_column st r c i = Inr res) \<longrightarrow>
            dom (snd (fst (detect_data_drift (Inr st) r c))) = feature_name ` {..<d}
            \<and> \<not> list_ex is_drift_error (snd (detect_data_drift (Inr st) r c)))"
proof -
  from assms(3) have le: "d \<le> d'" by simp
  note eq = detect_take_columns [OF assms(1,2) le]
  from assms(2,3) have sh: "shape_1 (take_columns d c) = Inr d"
    by (cases c rule: shape_1.cases) auto
  note sub = detect_dom_subset [OF assms(1)]
  have ok: "dom (snd (fst (detect_data_drift (Inr st) r c))) = feature_name ` {..<d}
            \<and> \<not> list_ex is_drift_error (snd (detect_data_drift (Inr st) r c))"
    if "\<forall>i<d. \<exists>res. ks_column st r c i = Inr res"
  proof -
    define s where "s = (\<lambda>i. fst (projr (ks_column st r c i)))"
    define p where "p = (\<lambda>i. snd (projr (ks_column st r c i)))"
    from that have "\<forall>i<d. ks_column st r c i = Inr (s i, p i)"
      by (auto simp: s_def p_def)
    from detect_entries [OF assms(1) this] obtain f where
      eq': "detect_data_drift (Inr st) r c =
        ((\<exists>i<d. flagged (f i), foldl (\<lambda>m i. m(feature_name i \<mapsto> f i)) Map.empty [0..<d]),
         map (\<lambda>i. DriftWarning i (ks_pvalue (f i))) (filter (\<lambda>i. flagged (f i)) [0..<d]))"
      by blast
    show ?thesis
      unfolding eq' by (simp add: details_dom lessThan_atLeast0 no_error_in_warnings)
  qed
  from eq sh sub ok show ?thesis by blast
qed

theorem detect_ignores_extra_columns_witness:
  "shape_1 example_narrow = Inr 1 \<and> shape_1 example_current = Inr 2 \<and> (1::nat) < 2
   \<and> ks_column stub_stats example_narrow example_current 0 = Inr (Fin 1, Fin 0)
   \<and> detect_data_drift (Inr stub_stats) example_narrow example_current =
       detect_data_drift (Inr stub_stats) example_narrow (take_columns 1 example_current)
   \<and> dom (snd (fst (detect_data_drift (Inr stub_stats) example_narrow example_current))) =
       feature_name ` {..<1}
   \<and> \<not> list_ex is_drift_error
         (snd (detect_data_drift (Inr stub_stats) example_narrow example_current))"
proof -
  have h1: "shape_1 example_narrow = Inr 1" by (simp add: example_narrow_def)
  have h2: "shape_1 example_current = Inr 2" by (simp add: example_current_def)
  have h3: "(1::nat) < 2" by simp
  have k0: "ks_column stub_stats example_narrow example_current 0 = Inr (Fin 1, Fin 0)"
    by (simp add: ks_column_def stub_stats_def example_narrow_def example_current_def)
  then have ks: "\<forall>i<1. \<exists>res. ks_column stub_stats example_narrow example_current i = Inr res"
    by simp
  from detect_ignores_extra_columns [OF h1 h2 h3, of stub_stats] ks h1 h2 h3 k0
  show ?thesis by blast
qed


text \<open>
  C2, as stated, fails: with a reference of width 2 and a current batch of width 1 the call
  returns \<open>(False, {})\<close>, the value of a comparison without drift, although feature 0 had
  been flagged; the error is only logged.
\<close>

theorem width_mismatch_counterexample:
  "shape_1 example_reference = Inr 2 \<and> shape_1 example_narrow = Inr 1
   \<and> detect_data_drift (Inr stub_stats) example_reference example_narrow =
       ((False, Map.empty), [DriftWarning 0 (Fin 0), DriftError IndexError])"
  by (simp add: detect_data_drift_def drift_feature_def stub_stats_def flagged_def
      example_reference_def example_narrow_def upt_rec)

text \<open>
  C2, amended. When the current batch is narrower than the reference, the call raises
  nothing: it returns \<open>drift_detected = False\<close> with an empty report, and the last record
  of the log is the error.
\<close>

theorem detect_narrower_current:
  assumes "shape_1 r = Inr d" and "shape_1 c = Inr d'" and "d' < d"
  shows "fst (detect_data_drift (Inr st) r c) = (False, Map.empty)
       \<and> (\<exists>lg e. snd (detect_data_drift (Inr st) r c) = lg @ [DriftError e])"
proof -
  from assms(2) have "get_column c d' = Inl IndexError"
    by (cases c rule: shape_1.cases) auto
  then have "\<exists>e. drift_feature st r c d' = Inl e"
    by (simp add: drift_feature_def split: sum.splits)
  then obtain e where "drift_feature st r c d' = Inl e" by blast
  from detect_fail [OF assms(1) assms(3) this] show ?thesis by auto
qed

theorem detect_narrower_current_witness:
  "shape_1 example_reference = Inr 2 \<and> shape_1 example_narrow = Inr 1 \<and> (1::nat) < 2
   \<and> fst (detect_data_drift (Inr stub_stats) example_reference example_narrow) = (False, Map.empty)
   \<and> (\<exists>lg e. snd (detect_data_drift (Inr stub_stats) example_reference example_narrow) =
         lg @ [DriftError e])"
proof -
  have h1: "shape_1 example_reference = Inr 2" by (simp add: example_reference_def)
  have h2: "shape_1 example_narrow = Inr 1" by (simp add: example_narrow_def)
  have h3: "(1::nat) < 2" by simp
  from detect_narrower_current [OF h1 h2 h3, of stub_stats] h1 h2 h3 show ?thesis by blast
qed

section \<open>Claims about the expectation suite\<close>

lemma feature_names:
  "feature_name 0 = ''feature_0''" "feature_name (Suc 0) = ''feature_1''"
  "feature_name 2 = ''feature_2''" "feature_name 3 = ''feature_3''"
  by (simp_all add: feature_name_def str_nat.simps digit_char_def)

lemma add_expectation_fresh:
  "\<not> list_ex (same_domain e) suite \<Longrightarrow> add_expectation suite e = suite @ [e]"
  by (simp add: add_expectation_def)

lemma same_domain_about:
  "about_column c e \<Longrightarrow> same_domain e x \<Longrightarrow> about_column c x"
  by (cases e; cases x) auto

lemma add_column_expectations_fresh:
  assumes "\<not> list_ex (about_column (feature_name i)) suite"
  shows "add_column_expectations suite i = suite @ column_expectations (feature_name i)"
proof -
  let ?c = "feature_name i"
  have a: "\<not> list_ex (same_domain e) suite" if "about_column ?c e" for e
    using assms that same_domain_about [of ?c e] by (auto simp: list_ex_iff)
  have 1: "add_expectation suite (ExpectColumnToExist ?c) = suite @ [ExpectColumnToExist ?c]"
    by (rule add_expectation_fresh) (simp add: a)
  have 2: "add_expectation (suite @ [ExpectColumnToExist ?c])
             (ExpectColumnValuesToBeOfType ?c ''float64'') =
           suite @ [ExpectColumnToExist ?c, ExpectColumnValuesToBeOfType ?c ''float64'']"
    using a [of "ExpectColumnValuesToBeOfType ?c ''float64''"]
    by (simp add: add_expectation_def)
  have 3: "add_expectation
             (suite @ [ExpectColumnToExist ?c, ExpectColumnValuesToBeOfType ?c ''float64''])
             (ExpectColumnValuesToNotBeNull ?c) =
           suite @ [ExpectColumnToExist ?c, ExpectColumnValuesToBeOfType ?c ''float64'',
                    ExpectColumnValuesToNotBeNull ?c]"
    using a [of "ExpectColumnValuesToNotBeNull ?c"]
    by (simp add: add_expectation_def)
  have 4: "add_expectation
             (suite @ [ExpectColumnToExist ?c, ExpectColumnValuesToBeOfType ?c ''float64'',
                    ExpectColumnValuesToNotBeNull ?c])
             (ExpectColumnValuesToBeBetween ?c (- 10) 10) =
           suite @ column_expectations ?c"
    using a [of "ExpectColumnValuesToBeBetween ?c (- 10) 10"]
    by (simp add: add_expectation_def column_expectations_def)
  show ?thesis
    unfolding add_column_expectations_def 1 2 3 4 ..
qed

lemma feature_name_1: "feature_name 1 = ''feature_1''"
  using feature_names(2) by simp

lemma create_expectation_suite_eq:
  "create_expectation_suite =
     [ExpectTableRowCountToBeBetween 1 10000,
      ExpectTableColumnsToMatchOrderedList
        [''feature_0'', ''feature_1'', ''feature_2'', ''feature_3'']]
     @ column_expectations ''feature_0'' @ column_expectations ''feature_1''
     @ column_expectations ''feature_2'' @ column_expectations ''feature_3''"
proof -
  define base where "base =
    [ExpectTableRowCountToBeBetween 1 10000,
     ExpectTableColumnsToMatchOrderedList
       [''feature_0'', ''feature_1'', ''feature_2'', ''feature_3'']]"
  have u: "[0..<4] = [0, 1, 2, 3::nat]" by (simp add: upt_rec)
  have b: "add_expectation
             (add_expectation [] (ExpectTableRowCountToBeBetween 1 10000))
             (ExpectTableColumnsToMatchOrderedList
                [''feature_0'', ''feature_1'', ''feature_2'', ''feature_3'']) = base"
    by (simp add: add_expectation_def base_def)
  have s0: "add_column_expectations base 0 = base @ column_expectations ''feature_0''"
    using add_column_expectations_fresh [of 0 base]
    by (simp add: base_def feature_names)
  have s1: "add_column_expectations (base @ column_expectations ''feature_0'') 1 =
      base @ column_expectations ''feature_0'' @ column_expectations ''feature_1''"
    using add_column_expectations_fresh [of 1 "base @ column_expectations ''feature_0''"]
    by (simp add: base_def feature_names feature_name_1 column_expectations_def)
  have s2: "add_column_expectations
      (base @ column_expectations ''feature_0'' @ column_expectations ''feature_1'') 2 =
      base @ column_expectations ''feature_0'' @ column_expectations ''feature_1''
        @ column_expectations ''feature_2''"
    using add_column_expectations_fresh
      [of 2 "base @ column_expectations ''feature_0'' @ column_expectations ''feature_1''"]
    by (simp add: base_def feature_names column_expectations_def)
  have s3: "add_column_expectations
      (base @ column_expectations ''feature_0'' @ column_expectations ''feature_1''
        @ column_expectations ''feature_2'') 3 =
      base @ column_expectations ''feature_0'' @ column_expectations ''feature_1''
        @ column_expectations ''feature_2'' @ column_expectations ''feature_3''"
    using add_column_expectations_fresh
      [of 3 "base @ column_expectations ''feature_0'' @ column_expectations ''feature_1''
        @ column_expectations ''feature_2''"]
    by (simp add: base_def feature_names column_expectations_def)
  have "create_expectation_suite =
      base @ column_expectations ''feature_0'' @ column_expectations ''feature_1''
        @ column_expectations ''feature_2'' @ column_expectations ''feature_3''"
    unfolding create_expectation_suite_def u b by (simp only: foldl.simps s0 s1 s2 s3)
  then show ?thesis by (simp add: base_def)
qed

text \<open>
  C7. The suite built by \<open>_create_expectation_suite\<close> is one fixed list: the row count
  between 1 and 10000, the column list \<open>feature_0 .. feature_3\<close> in order, and for each
  of the four columns, in order, that it exists, has type float64, holds no null and lies
  between -10 and 10. Every checker is constructed with this suite.
\<close>

theorem default_suite_is_fixed:
  "create_expectation_suite =
     [ExpectTableRowCountToBeBetween 1 10000,
      ExpectTableColumnsToMatchOrderedList
        [''feature_0'', ''feature_1'', ''feature_2'', ''feature_3''],
      ExpectColumnToExist ''feature_0'',
      ExpectColumnValuesToBeOfType ''feature_0'' ''float64'',
      ExpectColumnValuesToNotBeNull ''feature_0'',
      ExpectColumnValuesToBeBetween ''feature_0'' (- 10) 10,
      ExpectColumnToExist ''feature_1'',
      ExpectColumnValuesToBeOfType ''feature_1'' ''float64'',
      ExpectColumnValuesToNotBeNull ''feature_1'',
      ExpectColumnValuesToBeBetween ''feature_1'' (- 10) 10,
      ExpectColumnToExist ''feature_2'',
      ExpectColumnValuesToBeOfType ''feature_2'' ''float64'',
      ExpectColumnValuesToNotBeNull ''feature_2'',
      ExpectColumnValuesToBeBetween ''feature_2'' (- 10) 10,
      ExpectColumnToExist ''feature_3'',
      ExpectColumnValuesToBeOfType ''feature_3'' ''float64'',
      ExpectColumnValuesToNotBeNull ''feature_3'',
      ExpectColumnValuesToBeBetween ''feature_3'' (- 10) 10]
   \<and> expectation_suite (fst (init_checker p)) = create_expectation_suite"
  unfolding create_expectation_suite_eq
  by (simp add: column_expectations_def init_checker_def create_expectation_suite_eq)

section \<open>Claims about validation\<close>

lemma feature_names_suc:
  "feature_name (Suc (Suc 0)) = ''feature_2''" "feature_name (Suc (Suc (Suc 0))) = ''feature_3''"
  using feature_names(3,4) by (simp_all add: numeral_2_eq_2 numeral_3_eq_3)

lemma make_example_frame: "make_dataframe example_batch = Inr example_frame"
  by (simp add: example_batch_def example_frame_def upt_rec feature_names feature_names_suc)

lemma column_expectations_hold:
  "map_of (df_columns df) c = Some (Float64, [CFloat (Fin 0)]) \<Longrightarrow>
   map (\<lambda>e. case evaluate_expectation df e of Inl ex \<Rightarrow> False | Inr b \<Rightarrow> b)
     (column_expectations c) = [True, True, True, True]"
proof -
  assume col: "map_of (df_columns df) c = Some (Float64, [CFloat (Fin 0)])"
  then have "(c, Float64, [CFloat (Fin 0)]) \<in> set (df_columns df)"
    by (rule map_of_SomeD)
  then have "c \<in> fst ` set (df_columns df)" by force
  with col show ?thesis
    by (simp add: column_expectations_def find_column_def)
qed

lemma example_frame_outcomes:
  "outcomes example_frame create_expectation_suite =
     [True, True] @ [True, True, True, True] @ [True, True, True, True]
       @ [True, True, True, True] @ [True, True, True, True]"
proof -
  have c0: "map_of (df_columns example_frame) ''feature_0'' = Some (Float64, [CFloat (Fin 0)])"
    by (simp add: example_frame_def)
  have c1: "map_of (df_columns example_frame) ''feature_1'' = Some (Float64, [CFloat (Fin 0)])"
    by (simp add: example_frame_def)
  have c2: "map_of (df_columns example_frame) ''feature_2'' = Some (Float64, [CFloat (Fin 0)])"
    by (simp add: example_frame_def)
  have c3: "map_of (df_columns example_frame) ''feature_3'' = Some (Float64, [CFloat (Fin 0)])"
    by (simp add: example_frame_def)
  have t: "map (\<lambda>e. case evaluate_expectation example_frame e of Inl ex \<Rightarrow> False | Inr b \<Rightarrow> b)
      [ExpectTableRowCountToBeBetween 1 10000,
       ExpectTableColumnsToMatchOrderedList
         [''feature_0'', ''feature_1'', ''feature_2'', ''feature_3'']] = [True, True]"
    by (simp add: example_frame_def)
  show ?thesis
    unfolding outcomes_def create_expectation_suite_eq map_append t
      column_expectations_hold [OF c0] column_expectations_hold [OF c1]
      column_expectations_hold [OF c2] column_expectations_hold [OF c3]
    by simp
qed

lemma failed_expectation:
  "e \<in> set suite \<Longrightarrow> evaluate_expectation df e = Inr False \<Longrightarrow> \<not> fst (validate df suite)"
proof -
  assume e: "e \<in> set suite" and f: "evaluate_expectation df e = Inr False"
  from e f have "False \<in> set (outcomes df suite)"
    unfolding outcomes_def by force
  then show ?thesis
    by (auto simp: validate_def Let_def list_all_iff)
qed

lemma target_breaks_column_list:
  assumes "set_target df y = Inr df'"
  shows "evaluate_expectation df'
      (ExpectTableColumnsToMatchOrderedList
         [''feature_0'', ''feature_1'', ''feature_2'', ''feature_3'']) = Inr False"
proof -
  from assms have "df_columns df' = df_columns df @ [(''target'', fst y, snd y)]"
    by (auto simp: set_target_def split: if_splits)
  then have l: "last (map fst (df_columns df')) = ''target''" by simp
  have "map fst (df_columns df') \<noteq>
      [''feature_0'', ''feature_1'', ''feature_2'', ''feature_3'']"
  proof
    assume "map fst (df_columns df') =
      [''feature_0'', ''feature_1'', ''feature_2'', ''feature_3'']"
    then have "last (map fst (df_columns df')) = ''feature_3''" by simp
    with l show False by simp
  qed
  then show ?thesis by simp
qed

lemma training_validation_never_passes:
  "fst (validate_training_data (fst (init_checker p)) X y) = False"
proof (cases "training_body (fst (init_checker p)) X y")
  case (Inl e)
  then show ?thesis by (simp add: validate_training_data_def)
next
  case (Inr res)
  then obtain df df' where df: "make_dataframe X = Inr df" "set_target df y = Inr df'"
    and res: "res = validate df' create_expectation_suite"
    by (auto simp: training_body_def init_checker_def split: sum.splits)
  have "ExpectTableColumnsToMatchOrderedList
         [''feature_0'', ''feature_1'', ''feature_2'', ''feature_3'']
      \<in> set create_expectation_suite"
    by (simp add: create_expectation_suite_eq)
  from failed_expectation [OF this target_breaks_column_list [OF df(2)]]
  have "\<not> fst res" by (simp add: res)
  with Inr show ?thesis
    by (cases res) (simp add: validate_training_data_def)
qed

text \<open>
  C3. The claim is that training data which meets every constraint validates although the
  target column is present. The code does not do that: \<open>df["target"] = y\<close> adds a fifth
  column, and the suite demands that the column list be exactly the four feature columns.
  On the batch below \<open>validate_inference_data\<close> returns \<open>True\<close> and
  \<open>validate_training_data\<close> returns \<open>False\<close>.
\<close>

theorem training_validation_rejects_valid_batch:
  "validate_inference_data (fst (init_checker None)) example_batch = (True, [InferencePassed])
   \<and> fst (validate_training_data (fst (init_checker None)) example_batch example_target) = False"
proof -
  have "validate example_frame create_expectation_suite =
      (True, \<lparr>evaluated_expectations = 18, successful_expectations = 18,
               unsuccessful_expectations = 0\<rparr>)"
    by (simp add: validate_def example_frame_outcomes)
  then have "validate_inference_data (fst (init_checker None)) example_batch =
      (True, [InferencePassed])"
    by (simp add: validate_inference_data_def inference_body_def make_example_frame
        init_checker_def)
  with training_validation_never_passes [of None example_batch example_target]
  show ?thesis by simp
qed










section \<open>Claims about the reference store\<close>


















end
